theory Spec2Isabelle
  imports Complex_Main
begin

section \<open>Python values, errors and dense matrices\<close>

text \<open>
  The problem classes of \<^verbatim>\<open>examples/matrix_heat1d/ProblemClass.py\<close> and
  \<^verbatim>\<open>examples/sharpclaw/ProblemClass.py\<close> compute on numpy arrays of floats. The
  embedding idealises a float as a \<^typ>\<open>real\<close>; rounding is modelled where a claim
  depends on it (in \<open>u_exact\<close>), overflow and NaN are outside the model. An exception
  of the source is an \<open>Inl\<close> result.
\<close>

datatype error =
    AssertionError
  | ValueError
  | ZeroDivisionError
  | TypeError
  | AttributeError
  | RuntimeError
  | ConfigurationError

text \<open>The values a parameter mapping holds: Python ints, floats and strings.\<close>

datatype pval = IntV int | FloatV real | StrV string

type_synonym cparams = "string \<rightharpoonup> pval"

type_synonym vector = "real list"

text \<open>A square matrix of shape \<open>(N, N)\<close> is the list of its \<open>N\<close> rows.\<close>

type_synonym matrix = "real list list"

text \<open>A number used in float arithmetic; a string there raises \<^verbatim>\<open>TypeError\<close>.\<close>

fun num_of :: "pval \<Rightarrow> real option" where
  "num_of (IntV k) = Some (real_of_int k)"
| "num_of (FloatV r) = Some r"
| "num_of (StrV s) = None"

text \<open>
  \<^verbatim>\<open>scipy.sparse.diags(diagonals, offsets, shape=(N, N))\<close> with one number per diagonal
  (a scalar, or an array of length one, is broadcast along its diagonal). The entry at
  \<open>(i, j)\<close> is the number of the diagonal with offset \<open>j - i\<close>. scipy raises
  \<^verbatim>\<open>ValueError\<close> when the two lists differ in length, when a diagonal does not fit the
  shape (\<open>min (N + k) (N - k) N < 0\<close> for its offset \<open>k\<close>), and when an offset occurs
  twice.
\<close>

definition diag_entry :: "real list \<Rightarrow> int list \<Rightarrow> nat \<Rightarrow> nat \<Rightarrow> real" where
  "diag_entry diagonals offsets i j =
     sum_list (map2 (\<lambda>d k. if int j - int i = k then d else 0) diagonals offsets)"

definition sp_diags :: "real list \<Rightarrow> int list \<Rightarrow> int \<Rightarrow> error + matrix" where
  "sp_diags diagonals offsets N =
     (if length diagonals \<noteq> length offsets then Inl ValueError
      else if list_ex (\<lambda>k. min (min (N + k) (N - k)) N < 0) offsets then Inl ValueError
      else if \<not> distinct offsets then Inl ValueError
      else Inr (map (\<lambda>i. map (\<lambda>j. diag_entry diagonals offsets i j) [0..<nat N])
                  [0..<nat N]))"

text \<open>\<^verbatim>\<open>A *= c\<close>, \<^verbatim>\<open>c * A\<close>: every entry is scaled.\<close>

definition mat_scale :: "real \<Rightarrow> matrix \<Rightarrow> matrix" where
  "mat_scale c M = map (map (\<lambda>a. a * c)) M"

text \<open>\<^verbatim>\<open>sp.eye(N)\<close>: the identity of shape \<open>(N, N)\<close>.\<close>

definition sp_eye :: "int \<Rightarrow> matrix" where
  "sp_eye N = map (\<lambda>i. map (\<lambda>j. if i = j then 1 else 0) [0..<nat N]) [0..<nat N]"

text \<open>
  \<^verbatim>\<open>X + Y\<close> and \<^verbatim>\<open>X - Y\<close> on matrices: entry by entry; scipy raises
  \<^verbatim>\<open>ValueError\<close> (inconsistent shapes) when the shapes differ.
\<close>

definition mat_add :: "matrix \<Rightarrow> matrix \<Rightarrow> error + matrix" where
  "mat_add X Y =
     (if map length X = map length Y then Inr (map2 (map2 (\<lambda>a b. a + b)) X Y)
      else Inl ValueError)"

definition mat_sub :: "matrix \<Rightarrow> matrix \<Rightarrow> error + matrix" where
  "mat_sub X Y =
     (if map length X = map length Y then Inr (map2 (map2 (\<lambda>a b. a - b)) X Y)
      else Inl ValueError)"

text \<open>
  \<^verbatim>\<open>M.dot(v)\<close> for a square matrix and a one-dimensional array: scipy raises
  \<^verbatim>\<open>ValueError\<close> (dimension mismatch) unless the array has as many entries as the
  matrix has columns.
\<close>

definition row_dot :: "real list \<Rightarrow> vector \<Rightarrow> real" where
  "row_dot r v = sum_list (map2 (\<lambda>a b. a * b) r v)"

definition dot :: "matrix \<Rightarrow> vector \<Rightarrow> error + vector" where
  "dot M v =
     (if length v = length M then Inr (map (\<lambda>r. row_dot r v) M)
      else Inl ValueError)"

section \<open>The data containers\<close>

text \<open>
  The classes \<^verbatim>\<open>mesh\<close> and \<^verbatim>\<open>rhs_imex_mesh\<close> are imported from
  \<^verbatim>\<open>pySDC.datatype_classes.mesh\<close>. A mesh carries the array \<^verbatim>\<open>values\<close> (the field \<open>vals\<close>: the
  source's name is a keyword of Isabelle); a
  right-hand side carries the two meshes \<^verbatim>\<open>impl\<close> and \<^verbatim>\<open>expl\<close>.
\<close>

record mesh =
  vals :: vector

record rhs_imex_mesh =
  impl :: mesh
  expl :: mesh

text \<open>
  Modelled from the spec: the constructor \<^verbatim>\<open>mesh(n)\<close> of the data container, which the
  specification describes as "zero-initialization at a given size". numpy refuses a
  negative size with \<^verbatim>\<open>ValueError\<close>.
\<close>

definition mesh_init :: "int \<Rightarrow> error + mesh" where
  "mesh_init n =
     (if n < 0 then Inl ValueError else Inr \<lparr>vals = replicate (nat n) 0\<rparr>)"

text \<open>
  Modelled from the spec: \<^verbatim>\<open>c * mesh\<close>, the "element-wise scale" of the state-space
  capability.
\<close>

definition mesh_rmul :: "real \<Rightarrow> mesh \<Rightarrow> mesh" where
  "mesh_rmul c m = \<lparr>vals = map (\<lambda>a. a * c) (vals m)\<rparr>"


section \<open>heat1d: the forced heat equation with Dirichlet boundary\<close>

text \<open>
  The attributes of a \<^verbatim>\<open>heat1d\<close> instance that its methods read. The constructor copies
  every entry of the parameter mapping into an attribute; the entries other than
  \<^verbatim>\<open>nvars\<close> and \<^verbatim>\<open>nu\<close> are read by no method modelled here.
\<close>

record heat1d =
  nvars :: int
  nu :: real
  dx :: real
  A :: matrix
  xvalues :: vector

text \<open>
  \<^verbatim>\<open>__get_A(N, nu, dx)\<close>: the stencil \<open>[1, -2, 1]\<close> on the diagonals \<open>-1, 0, 1\<close>,
  scaled by \<open>nu / dx\<^sup>2\<close>. A string for \<open>nu\<close> raises at the scaling, after the
  matrix has been assembled.
\<close>

definition get_A :: "int \<Rightarrow> pval \<Rightarrow> real \<Rightarrow> error + matrix" where
  "get_A N nuv dx' =
     (case sp_diags [1, -2, 1] [-1, 0, 1] N of
        Inl e \<Rightarrow> Inl e
      | Inr A0 \<Rightarrow>
          (case num_of nuv of
             None \<Rightarrow> Inl TypeError
           | Some nu' \<Rightarrow> Inr (mat_scale (nu' / dx'\<^sup>2) A0)))"

text \<open>
  \<^verbatim>\<open>heat1d.__init__(cparams, dtype_u, dtype_f)\<close>. The two assertions come first; then
  \<open>dx = 1 / (nvars + 1)\<close> (true division: the module imports \<^verbatim>\<open>division\<close> from
  \<^verbatim>\<open>__future__\<close>), the matrix and the grid points \<open>(i + 1) * dx\<close>. The model covers an
  integer \<^verbatim>\<open>nvars\<close>; any other value is a \<^verbatim>\<open>TypeError\<close>.
\<close>

definition heat1d_init :: "cparams \<Rightarrow> error + heat1d" where
  "heat1d_init cparams =
     (if ''nvars'' \<notin> dom cparams then Inl AssertionError
      else if ''nu'' \<notin> dom cparams then Inl AssertionError
      else
        (case (cparams ''nvars'', cparams ''nu'') of
           (Some (IntV n), Some nuv) \<Rightarrow>
             if n + 1 = 0 then Inl ZeroDivisionError
             else
               (let dx' = 1 / (real_of_int n + 1) in
                case get_A n nuv dx' of
                  Inl e \<Rightarrow> Inl e
                | Inr A' \<Rightarrow>
                    Inr \<lparr>nvars = n, nu = the (num_of nuv), dx = dx', A = A',
                         xvalues = map (\<lambda>i. (real i + 1) * dx') [0..<nat n]\<rparr>)
         | _ \<Rightarrow> Inl TypeError))"

section \<open>heat1d_periodic: the heat equation with periodic boundary\<close>

text \<open>
  The periodic class has the attributes of \<^verbatim>\<open>heat1d\<close> and \<^verbatim>\<open>sparse_format\<close>.
\<close>

record heat1d_periodic = heat1d +
  sparse_format :: pval

text \<open>
  \<^verbatim>\<open>heat1d_periodic.__get_A\<close>: the same stencil plus the two corner entries on the
  diagonals \<open>N - 1\<close> and \<open>1 - N\<close>. The second call of \<^verbatim>\<open>sp.diags\<close> has no shape
  argument: scipy takes the length of the first diagonal (one) plus the absolute value
  of the first offset. \<^verbatim>\<open>to_sparse\<close> of \<^verbatim>\<open>pySDC.tools.transfer_tools\<close> is not among
  the sources and is a parameter here.
\<close>

definition periodic_get_A ::
  "(matrix \<Rightarrow> pval \<Rightarrow> matrix) \<Rightarrow> pval \<Rightarrow> int \<Rightarrow> pval \<Rightarrow> real \<Rightarrow> error + matrix" where
  "periodic_get_A to_sparse fmt N nuv dx' =
     (case sp_diags [1, -2, 1] [-1, 0, 1] N of
        Inl e \<Rightarrow> Inl e
      | Inr T \<Rightarrow>
          (case sp_diags [1, 1] [N - 1, 1 - N] (1 + \<bar>N - 1\<bar>) of
             Inl e \<Rightarrow> Inl e
           | Inr C \<Rightarrow>
               (case mat_add T C of
                  Inl e \<Rightarrow> Inl e
                | Inr A0 \<Rightarrow>
                    (case num_of nuv of
                       None \<Rightarrow> Inl TypeError
                     | Some nu' \<Rightarrow> Inr (to_sparse (mat_scale (nu' / dx'\<^sup>2) A0) fmt)))))"

text \<open>
  \<^verbatim>\<open>heat1d_periodic.__init__\<close>: the same two assertions, the default
  \<^verbatim>\<open>"array"\<close> for \<^verbatim>\<open>sparse_format\<close>, \<open>dx = 1.0 / nvars\<close> and the grid points
  \<open>i * dx\<close>.
\<close>

definition heat1d_periodic_init ::
  "(matrix \<Rightarrow> pval \<Rightarrow> matrix) \<Rightarrow> cparams \<Rightarrow> error + heat1d_periodic" where
  "heat1d_periodic_init to_sparse cparams =
     (if ''nvars'' \<notin> dom cparams then Inl AssertionError
      else if ''nu'' \<notin> dom cparams then Inl AssertionError
      else
        (let fmt = (case cparams ''sparse_format'' of
                      Some f \<Rightarrow> f
                    | None \<Rightarrow> StrV ''array'')
         in case (cparams ''nvars'', cparams ''nu'') of
           (Some (IntV n), Some nuv) \<Rightarrow>
             if n = 0 then Inl ZeroDivisionError
             else
               (let dx' = 1 / real_of_int n in
                case periodic_get_A to_sparse fmt n nuv dx' of
                  Inl e \<Rightarrow> Inl e
                | Inr A' \<Rightarrow>
                    Inr \<lparr>nvars = n, nu = the (num_of nuv), dx = dx', A = A',
                         xvalues = map (\<lambda>i. real i * dx') [0..<nat n],
                         sparse_format = fmt\<rparr>)
         | _ \<Rightarrow> Inl TypeError))"

section \<open>Rounding to a float\<close>





section \<open>The methods of heat1d\<close>

text \<open>
  \<^verbatim>\<open>scipy.sparse.linalg.inv\<close> is a library routine; the methods take it as the
  parameter \<open>LA_inv\<close>, a function from a matrix to its inverse or an error.

  \<^verbatim>\<open>heat1d.solve_system(rhs, factor, u0)\<close>: a fresh mesh, the inverse of
  \<open>eye(nvars) - factor * A\<close>, and its product with \<^verbatim>\<open>rhs.values\<close>.
\<close>

definition solve_system ::
  "(matrix \<Rightarrow> error + matrix) \<Rightarrow> heat1d \<Rightarrow> mesh \<Rightarrow> real \<Rightarrow> mesh \<Rightarrow> error + mesh" where
  "solve_system LA_inv P rhs factor u0 =
     (case mesh_init (nvars P) of
        Inl e \<Rightarrow> Inl e
      | Inr me \<Rightarrow>
          (case mat_sub (sp_eye (nvars P)) (mat_scale factor (A P)) of
             Inl e \<Rightarrow> Inl e
           | Inr M \<Rightarrow>
               (case LA_inv M of
                  Inl e \<Rightarrow> Inl e
                | Inr Minv \<Rightarrow>
                    (case dot Minv (vals rhs) of
                       Inl e \<Rightarrow> Inl e
                     | Inr v \<Rightarrow> Inr (me\<lparr>vals := v\<rparr>)))))"

text \<open>
  \<^verbatim>\<open>heat1d.__eval_fexpl(u, t)\<close>: the forcing is commented out in the source; the
  values are \<^verbatim>\<open>np.zeros(nvars)\<close>.
\<close>

definition eval_fexpl :: "heat1d \<Rightarrow> mesh \<Rightarrow> real \<Rightarrow> error + mesh" where
  "eval_fexpl P u t =
     (case mesh_init (nvars P) of
        Inl e \<Rightarrow> Inl e
      | Inr fexpl \<Rightarrow> Inr (fexpl\<lparr>vals := replicate (nat (nvars P)) 0\<rparr>))"

text \<open>\<^verbatim>\<open>heat1d.__eval_fimpl(u, t)\<close>: the values are \<^verbatim>\<open>A.dot(u.values)\<close>.\<close>

definition eval_fimpl :: "heat1d \<Rightarrow> mesh \<Rightarrow> real \<Rightarrow> error + mesh" where
  "eval_fimpl P u t =
     (case mesh_init (nvars P) of
        Inl e \<Rightarrow> Inl e
      | Inr fimpl \<Rightarrow>
          (case dot (A P) (vals u) of
             Inl e \<Rightarrow> Inl e
           | Inr v \<Rightarrow> Inr (fimpl\<lparr>vals := v\<rparr>)))"

text \<open>
  Modelled from the spec: the constructor \<^verbatim>\<open>rhs_imex_mesh(n)\<close>, two zero-initialised
  meshes of the given size.
\<close>

definition rhs_imex_mesh_init :: "int \<Rightarrow> error + rhs_imex_mesh" where
  "rhs_imex_mesh_init n =
     (case mesh_init n of
        Inl e \<Rightarrow> Inl e
      | Inr m \<Rightarrow> Inr \<lparr>impl = m, expl = m\<rparr>)"

text \<open>\<^verbatim>\<open>heat1d.eval_f(u, t)\<close>: the implicit part first, then the explicit part.\<close>

definition eval_f :: "heat1d \<Rightarrow> mesh \<Rightarrow> real \<Rightarrow> error + rhs_imex_mesh" where
  "eval_f P u t =
     (case rhs_imex_mesh_init (nvars P) of
        Inl e \<Rightarrow> Inl e
      | Inr f \<Rightarrow>
          (case eval_fimpl P u t of
             Inl e \<Rightarrow> Inl e
           | Inr fi \<Rightarrow>
               (case eval_fexpl P u t of
                  Inl e \<Rightarrow> Inl e
                | Inr fe \<Rightarrow> Inr (f\<lparr>impl := fi, expl := fe\<rparr>))))"


text \<open>
  The argument of \<^verbatim>\<open>force_term\<close>: a number, or a one-dimensional
  \<^verbatim>\<open>numpy.ndarray\<close> of numbers (the test is \<^verbatim>\<open>type(t) is np.ndarray\<close>).
\<close>

datatype time_arg = Scalar real | NdArray "real list"

text \<open>
  \<^verbatim>\<open>heat1d.force_term(t)\<close>: zeros of length
  \<^verbatim>\<open>xvalues.shape[0] * t.shape[0]\<close> for an array, the forcing on the grid for a
  number.
\<close>

fun force_term :: "heat1d \<Rightarrow> time_arg \<Rightarrow> vector" where
  "force_term P (NdArray ts) = replicate (length (xvalues P) * length ts) 0"
| "force_term P (Scalar t) =
     map (\<lambda>x. - sin (pi * x) * (sin t - nu P * pi\<^sup>2 * cos t)) (xvalues P)"

section \<open>The methods of heat1d_periodic\<close>

text \<open>
  \<^verbatim>\<open>heat1d_periodic.solve_system\<close> and \<^verbatim>\<open>heat1d_periodic.force_term\<close> have the
  bodies of their \<^verbatim>\<open>heat1d\<close> namesakes, on the attributes of the periodic instance.
\<close>

definition periodic_solve_system ::
  "(matrix \<Rightarrow> error + matrix) \<Rightarrow> heat1d_periodic \<Rightarrow> mesh \<Rightarrow> real \<Rightarrow> mesh \<Rightarrow> error + mesh"
  where
  "periodic_solve_system LA_inv P rhs factor u0 =
     (case mesh_init (nvars P) of
        Inl e \<Rightarrow> Inl e
      | Inr me \<Rightarrow>
          (case mat_sub (sp_eye (nvars P)) (mat_scale factor (A P)) of
             Inl e \<Rightarrow> Inl e
           | Inr M \<Rightarrow>
               (case LA_inv M of
                  Inl e \<Rightarrow> Inl e
                | Inr Minv \<Rightarrow>
                    (case dot Minv (vals rhs) of
                       Inl e \<Rightarrow> Inl e
                     | Inr v \<Rightarrow> Inr (me\<lparr>vals := v\<rparr>)))))"

fun periodic_force_term :: "heat1d_periodic \<Rightarrow> time_arg \<Rightarrow> vector" where
  "periodic_force_term P (NdArray ts) = replicate (length (xvalues P) * length ts) 0"
| "periodic_force_term P (Scalar t) =
     map (\<lambda>x. - sin (pi * x) * (sin t - nu P * pi\<^sup>2 * cos t)) (xvalues P)"

section \<open>sharpclaw\<close>

text \<open>
  The constructor of \<^verbatim>\<open>sharpclaw\<close> drives the clawpack library and is not modelled;
  its two methods below read the attribute \<^verbatim>\<open>nvars\<close> only (the field
  \<open>sc_nvars\<close>).
\<close>

record sharpclaw =
  sc_nvars :: int

text \<open>\<^verbatim>\<open>sharpclaw.solve_system(rhs, factor, u0)\<close>: \<^verbatim>\<open>0.0 * mesh(nvars)\<close>.\<close>

definition sharpclaw_solve_system ::
  "sharpclaw \<Rightarrow> mesh \<Rightarrow> real \<Rightarrow> mesh \<Rightarrow> error + mesh" where
  "sharpclaw_solve_system S rhs factor u0 =
     (case mesh_init (sc_nvars S) of
        Inl e \<Rightarrow> Inl e
      | Inr m \<Rightarrow> Inr (mesh_rmul 0 m))"

text \<open>\<^verbatim>\<open>sharpclaw.__eval_fimpl(u, t)\<close>: the values are \<^verbatim>\<open>0.0 * u.values\<close>.\<close>

definition sharpclaw_eval_fimpl :: "sharpclaw \<Rightarrow> mesh \<Rightarrow> real \<Rightarrow> error + mesh" where
  "sharpclaw_eval_fimpl S u t =
     (case mesh_init (sc_nvars S) of
        Inl e \<Rightarrow> Inl e
      | Inr fimpl \<Rightarrow> Inr (fimpl\<lparr>vals := map (\<lambda>a. 0 * a) (vals u)\<rparr>))"

text \<open>
  The left-hand side of the system that \<^verbatim>\<open>solve_system\<close> is documented to solve,
  \<open>(I - factor * Op) u\<close>, for an operator given as a matrix.
\<close>

definition system_lhs :: "matrix \<Rightarrow> real \<Rightarrow> vector \<Rightarrow> error + vector" where
  "system_lhs Op factor u =
     (case mat_sub (sp_eye (int (length Op))) (mat_scale factor Op) of
        Inl e \<Rightarrow> Inl e
      | Inr M \<Rightarrow> dot M u)"

section \<open>The collocation classes\<close>

text \<open>
  \<^verbatim>\<open>Equidistant\<close> derives from the class \<^verbatim>\<open>Collocation\<close> of
  \<^verbatim>\<open>pySDC.implementations.collocations\<close>, which is not among the sources.
\<close>

record collocation =
  num_nodes :: int
  tleft :: real
  tright :: real
  node_type :: string
  quad_type :: string
  useSpline :: bool

text \<open>
  Modelled from the spec: the constructor of \<^verbatim>\<open>Collocation\<close>, which is missing from
  the sources. The specification: "fails with ConfigurationError if M < 1, if the
  node/quadrature combination is unsupported, or if a >= b". The table of the supported
  combinations is the parameter \<open>supported\<close>. The nodes, the weights and the matrix
  \<open>Q\<close> that the constructor computes are not part of this model.
\<close>

definition Collocation_init ::
  "(string \<Rightarrow> string \<Rightarrow> bool) \<Rightarrow> int \<Rightarrow> real \<Rightarrow> real \<Rightarrow> string \<Rightarrow> string \<Rightarrow> bool
     \<Rightarrow> error + collocation" where
  "Collocation_init supported M a b nt qt spline =
     (if M < 1 then Inl ConfigurationError
      else if \<not> supported nt qt then Inl ConfigurationError
      else if a \<ge> b then Inl ConfigurationError
      else Inr \<lparr>num_nodes = M, tleft = a, tright = b, node_type = nt, quad_type = qt,
                useSpline = spline\<rparr>)"

text \<open>
  \<^verbatim>\<open>Equidistant.__init__(num_nodes, tleft, tright)\<close> calls the constructor of the base
  class with \<^verbatim>\<open>node_type='EQUID'\<close>, \<^verbatim>\<open>quad_type='LOBATTO'\<close> and
  \<^verbatim>\<open>useSpline=False\<close>.
\<close>

definition Equidistant_init ::
  "(string \<Rightarrow> string \<Rightarrow> bool) \<Rightarrow> int \<Rightarrow> real \<Rightarrow> real \<Rightarrow> error + collocation" where
  "Equidistant_init supported M a b =
     Collocation_init supported M a b ''EQUID'' ''LOBATTO'' False"

section \<open>An inverse for the concrete checks\<close>

text \<open>
  An instance of the parameter \<open>LA_inv\<close>: the inverse of a matrix of shape
  \<open>(2, 2)\<close>, the adjugate over the determinant. A singular matrix and a matrix of
  another shape are errors.
\<close>

definition inv_2x2 :: "matrix \<Rightarrow> error + matrix" where
  "inv_2x2 M =
     (case M of
        [[a, b], [c, d]] \<Rightarrow>
          if a * d - b * c = 0 then Inl RuntimeError
          else Inr [[d / (a * d - b * c), - b / (a * d - b * c)],
                    [- c / (a * d - b * c), a / (a * d - b * c)]]
      | _ \<Rightarrow> Inl ValueError)"

section \<open>eval_f on a heap of objects\<close>

text \<open>
  Whether \<^verbatim>\<open>eval_f\<close> changes its argument or the instance is a question about
  objects, not values. In this second model of \<^verbatim>\<open>heat1d.eval_f\<close> and its two
  helpers, a mesh and a right-hand side are objects on a heap, a variable holds an
  address, \<^verbatim>\<open>mesh(n)\<close> allocates, and an attribute assignment updates the object
  at an address. The state is the instance \<^verbatim>\<open>self\<close> and the heap; every method
  returns the state it leaves.
\<close>

type_synonym addr = nat

datatype obj = MeshObj vector | RhsObj addr addr

record pystate =
  self :: heat1d
  heap :: "obj list"

definition alloc :: "obj \<Rightarrow> pystate \<Rightarrow> addr \<times> pystate" where
  "alloc ob s = (length (heap s), s\<lparr>heap := heap s @ [ob]\<rparr>)"

text \<open>\<^verbatim>\<open>mesh(n)\<close>: a new zero mesh (see \<open>mesh_init\<close>).\<close>

definition h_mesh :: "int \<Rightarrow> pystate \<Rightarrow> (error + addr) \<times> pystate" where
  "h_mesh n s =
     (if n < 0 then (Inl ValueError, s)
      else (case alloc (MeshObj (replicate (nat n) 0)) s of (a, s') \<Rightarrow> (Inr a, s')))"

text \<open>\<^verbatim>\<open>x.values\<close>: only a mesh has the attribute.\<close>

definition h_values :: "addr \<Rightarrow> pystate \<Rightarrow> error + vector" where
  "h_values a s =
     (if a < length (heap s) then
        (case heap s ! a of MeshObj v \<Rightarrow> Inr v | RhsObj i e \<Rightarrow> Inl AttributeError)
      else Inl AttributeError)"

text \<open>\<^verbatim>\<open>x.values = v\<close> on a mesh \<open>x\<close>.\<close>

definition h_set_values :: "addr \<Rightarrow> vector \<Rightarrow> pystate \<Rightarrow> pystate" where
  "h_set_values a v s = s\<lparr>heap := (heap s)[a := MeshObj v]\<rparr>"

text \<open>\<^verbatim>\<open>rhs_imex_mesh(n)\<close>: two new zero meshes and the object that holds them.\<close>

definition h_rhs_imex_mesh :: "int \<Rightarrow> pystate \<Rightarrow> (error + addr) \<times> pystate" where
  "h_rhs_imex_mesh n s =
     (case h_mesh n s of
        (Inl e, s1) \<Rightarrow> (Inl e, s1)
      | (Inr i, s1) \<Rightarrow>
          (case h_mesh n s1 of
             (Inl e, s2) \<Rightarrow> (Inl e, s2)
           | (Inr x, s2) \<Rightarrow>
               (case alloc (RhsObj i x) s2 of (f, s3) \<Rightarrow> (Inr f, s3))))"

text \<open>\<^verbatim>\<open>f.impl = a\<close> and \<^verbatim>\<open>f.expl = a\<close> on a right-hand side \<open>f\<close>.\<close>

definition h_set_impl :: "addr \<Rightarrow> addr \<Rightarrow> pystate \<Rightarrow> pystate" where
  "h_set_impl f a s =
     s\<lparr>heap := (heap s)[f := (case heap s ! f of RhsObj i x \<Rightarrow> RhsObj a x | ob \<Rightarrow> ob)]\<rparr>"

definition h_set_expl :: "addr \<Rightarrow> addr \<Rightarrow> pystate \<Rightarrow> pystate" where
  "h_set_expl f a s =
     s\<lparr>heap := (heap s)[f := (case heap s ! f of RhsObj i x \<Rightarrow> RhsObj i a | ob \<Rightarrow> ob)]\<rparr>"

text \<open>\<^verbatim>\<open>heat1d.__eval_fexpl(u, t)\<close> on the heap.\<close>

definition h_eval_fexpl :: "addr \<Rightarrow> real \<Rightarrow> pystate \<Rightarrow> (error + addr) \<times> pystate" where
  "h_eval_fexpl u t s =
     (case h_mesh (nvars (self s)) s of
        (Inl e, s1) \<Rightarrow> (Inl e, s1)
      | (Inr fexpl, s1) \<Rightarrow>
          (Inr fexpl, h_set_values fexpl (replicate (nat (nvars (self s1))) 0) s1))"

text \<open>\<^verbatim>\<open>heat1d.__eval_fimpl(u, t)\<close> on the heap.\<close>

definition h_eval_fimpl :: "addr \<Rightarrow> real \<Rightarrow> pystate \<Rightarrow> (error + addr) \<times> pystate" where
  "h_eval_fimpl u t s =
     (case h_mesh (nvars (self s)) s of
        (Inl e, s1) \<Rightarrow> (Inl e, s1)
      | (Inr fimpl, s1) \<Rightarrow>
          (case h_values u s1 of
             Inl e \<Rightarrow> (Inl e, s1)
           | Inr uv \<Rightarrow>
               (case dot (A (self s1)) uv of
                  Inl e \<Rightarrow> (Inl e, s1)
                | Inr v \<Rightarrow> (Inr fimpl, h_set_values fimpl v s1))))"

text \<open>\<^verbatim>\<open>heat1d.eval_f(u, t)\<close> on the heap.\<close>

definition h_eval_f :: "addr \<Rightarrow> real \<Rightarrow> pystate \<Rightarrow> (error + addr) \<times> pystate" where
  "h_eval_f u t s =
     (case h_rhs_imex_mesh (nvars (self s)) s of
        (Inl e, s1) \<Rightarrow> (Inl e, s1)
      | (Inr f, s1) \<Rightarrow>
          (case h_eval_fimpl u t s1 of
             (Inl e, s2) \<Rightarrow> (Inl e, s2)
           | (Inr fi, s2) \<Rightarrow>
               (case h_eval_fexpl u t (h_set_impl f fi s2) of
                  (Inl e, s3) \<Rightarrow> (Inl e, s3)
                | (Inr fe, s3) \<Rightarrow> (Inr f, h_set_expl f fe s3))))"

text \<open>
  What a caller reads from the result of \<^verbatim>\<open>eval_f\<close>: the error, or the values of
  \<^verbatim>\<open>f.impl\<close> and \<^verbatim>\<open>f.expl\<close>.
\<close>

definition h_result :: "error + addr \<Rightarrow> pystate \<Rightarrow> error + rhs_imex_mesh" where
  "h_result r s =
     (case r of
        Inl e \<Rightarrow> Inl e
      | Inr f \<Rightarrow>
          (if f < length (heap s) then
             (case heap s ! f of
                MeshObj v \<Rightarrow> Inl AttributeError
              | RhsObj i x \<Rightarrow>
                  (case h_values i s of
                     Inl e \<Rightarrow> Inl e
                   | Inr vi \<Rightarrow>
                       (case h_values x s of
                          Inl e \<Rightarrow> Inl e
                        | Inr vx \<Rightarrow> Inr \<lparr>impl = \<lparr>vals = vi\<rparr>, expl = \<lparr>vals = vx\<rparr>\<rparr>)))
           else Inl AttributeError))"

section \<open>Construction with a missing parameter\<close>

lemma heat1d_init_missing:
  assumes "cparams ''nvars'' = None \<or> cparams ''nu'' = None"
  shows "heat1d_init cparams = Inl AssertionError"
  using assms by (auto simp: heat1d_init_def dom_def)

lemma heat1d_periodic_init_missing:
  assumes "cparams ''nvars'' = None \<or> cparams ''nu'' = None"
  shows "heat1d_periodic_init ts cparams = Inl AssertionError"
  using assms by (auto simp: heat1d_periodic_init_def dom_def)

section \<open>What the constructor establishes\<close>

lemma sp_diags_stencil:
  "sp_diags [1, -2, 1] [-1, 0, 1] n =
     (if n < 1 then Inl ValueError
      else Inr (map (\<lambda>i. map (\<lambda>j. diag_entry [1, -2, 1] [-1, 0, 1] i j) [0..<nat n])
                  [0..<nat n]))"
  by (auto simp: sp_diags_def)

lemma diag_entry_stencil:
  "diag_entry [1, -2, 1] [-1, 0, 1] i j =
     (if i = j then -2 else if i = Suc j \<or> j = Suc i then 1 else 0)"
  by (auto simp: diag_entry_def)

lemma heat1d_init_Inr:
  assumes "heat1d_init cp = Inr P"
  shows "\<exists>n nuv. cp ''nvars'' = Some (IntV n) \<and> cp ''nu'' = Some nuv \<and> 1 \<le> n
           \<and> num_of nuv = Some (nu P) \<and> nvars P = n
           \<and> dx P = 1 / (real_of_int n + 1)
           \<and> A P = mat_scale (nu P / (dx P)\<^sup>2)
                 (map (\<lambda>i. map (\<lambda>j. diag_entry [1, -2, 1] [-1, 0, 1] i j) [0..<nat n])
                    [0..<nat n])
           \<and> xvalues P = map (\<lambda>i. (real i + 1) * dx P) [0..<nat n]"
  using assms
  by (auto simp: heat1d_init_def get_A_def sp_diags_stencil Let_def
      split: option.splits pval.splits if_splits sum.splits)

lemma mesh_init_constructed:
  assumes "heat1d_init cp = Inr P"
  shows "mesh_init (nvars P) = Inr \<lparr>vals = replicate (nat (nvars P)) 0\<rparr>"
  using heat1d_init_Inr [OF assms] by (auto simp: mesh_init_def)

lemma A_rows:
  assumes "heat1d_init cp = Inr P"
  shows "A P = map (\<lambda>i. map (\<lambda>j. (if i = j then -2 else if i = Suc j \<or> j = Suc i then 1 else 0)
                                 * (nu P / (dx P)\<^sup>2)) [0..<nat (nvars P)])
                 [0..<nat (nvars P)]"
proof -
  from heat1d_init_Inr [OF assms] obtain n where
    n: "nvars P = n" and
    A: "A P = mat_scale (nu P / (dx P)\<^sup>2)
         (map (\<lambda>i. map (\<lambda>j. diag_entry [1, -2, 1] [-1, 0, 1] i j) [0..<nat n]) [0..<nat n])"
    by blast
  show ?thesis
    unfolding A n by (simp add: mat_scale_def diag_entry_stencil)
qed

text \<open>
  A small instance for the concrete checks below: two grid points, \<open>nu = 1\<close>.
\<close>

lemma heat1d_init_two:
  "heat1d_init [''nvars'' \<mapsto> IntV 2, ''nu'' \<mapsto> FloatV 1] =
     Inr \<lparr>nvars = 2, nu = 1, dx = 1 / 3, A = [[- 18, 9], [9, - 18]],
          xvalues = [1 / 3, 2 / 3]\<rparr>"
  by (simp add: heat1d_init_def get_A_def sp_diags_def diag_entry_def mat_scale_def
      Let_def upt_rec power2_eq_square)

section \<open>The product of a matrix and a vector as a sum\<close>

lemma row_dot_sum:
  "length r = length v \<Longrightarrow> row_dot r v = (\<Sum>k<length v. r ! k * v ! k)"
proof (induction r v rule: list_induct2)
  case Nil
  then show ?case by (simp add: row_dot_def)
next
  case (Cons a r b v)
  have "(\<Sum>k<Suc (length v). (a # r) ! k * (b # v) ! k)
        = a * b + (\<Sum>k<length v. r ! k * v ! k)"
    by (simp only: sum.lessThan_Suc_shift) simp
  with Cons show ?case by (simp add: row_dot_def)
qed

lemma stencil_sum:
  fixes f :: "nat \<Rightarrow> real"
  assumes "i < N"
  shows "(\<Sum>j<N. (if i = j then -2 else if i = Suc j \<or> j = Suc i then 1 else 0) * f j)
       = (if 0 < i then f (i - 1) else 0) - 2 * f i + (if Suc i < N then f (Suc i) else 0)"
proof -
  let ?lap = "\<lambda>j. (if i = j then -2 else if i = Suc j \<or> j = Suc i then 1 else 0) :: real"
  have pt: "?lap j * f j
      = (if j = i then - 2 * f j else 0)
        + ((if 0 < i \<and> j = i - 1 then f j else 0) + (if j = Suc i then f j else 0))" for j
    by auto
  have "(\<Sum>j<N. ?lap j * f j)
      = (\<Sum>j<N. if j = i then - 2 * f j else 0)
        + ((\<Sum>j<N. if 0 < i \<and> j = i - 1 then f j else 0)
           + (\<Sum>j<N. if j = Suc i then f j else 0))"
    by (simp only: pt sum.distrib)
  moreover have "(\<Sum>j<N. if j = i then - 2 * f j else 0) = - 2 * f i"
    using assms by simp
  moreover have "(\<Sum>j<N. if j = Suc i then f j else 0) = (if Suc i < N then f (Suc i) else 0)"
    by simp
  moreover have "(\<Sum>j<N. if 0 < i \<and> j = i - 1 then f j else 0)
      = (if 0 < i then f (i - 1) else 0)"
  proof (cases "0 < i")
    case True
    then have "(\<Sum>j<N. if 0 < i \<and> j = i - 1 then f j else 0)
        = (\<Sum>j<N. if j = i - 1 then f j else 0)"
      by simp
    also have "\<dots> = f (i - 1)" using assms by (simp add: less_imp_diff_less)
    finally show ?thesis using True by simp
  next
    case False
    then show ?thesis by simp
  qed
  ultimately show ?thesis by simp
qed

lemma A_dot:
  assumes init: "heat1d_init cp = Inr P" and len: "length u = nat (nvars P)"
  shows "dot (A P) u =
     Inr (map (\<lambda>i. nu P / (dx P)\<^sup>2 *
            ((if 0 < i then u ! (i - 1) else 0) - 2 * u ! i
              + (if Suc i < nat (nvars P) then u ! Suc i else 0)))
          [0..<nat (nvars P)])"
proof -
  let ?N = "nat (nvars P)" and ?c = "nu P / (dx P)\<^sup>2"
  let ?lap = "\<lambda>i j. (if i = j then -2 else if i = Suc j \<or> j = Suc i then 1 else 0) :: real"
  have row: "row_dot (map (\<lambda>j. ?lap i j * ?c) [0..<?N]) u
        = ?c * ((if 0 < i then u ! (i - 1) else 0) - 2 * u ! i
                 + (if Suc i < ?N then u ! Suc i else 0))" if "i < ?N" for i
  proof -
    have "row_dot (map (\<lambda>j. ?lap i j * ?c) [0..<?N]) u
        = (\<Sum>k<?N. map (\<lambda>j. ?lap i j * ?c) [0..<?N] ! k * u ! k)"
      using row_dot_sum [of "map (\<lambda>j. ?lap i j * ?c) [0..<?N]" u] len by simp
    also have "\<dots> = (\<Sum>k<?N. ?c * (?lap i k * u ! k))"
      by (rule sum.cong) simp_all
    also have "\<dots> = ?c * (\<Sum>k<?N. ?lap i k * u ! k)"
      by (simp only: sum_distrib_left)
    finally show ?thesis
      by (simp only: stencil_sum [OF that])
  qed
  have "dot (A P) u = Inr (map (\<lambda>r. row_dot r u) (A P))"
    by (simp add: dot_def A_rows [OF init] len)
  also have "map (\<lambda>r. row_dot r u) (A P)
      = map (\<lambda>i. row_dot (map (\<lambda>j. ?lap i j * ?c) [0..<?N]) u) [0..<?N]"
    by (simp add: A_rows [OF init] comp_def)
  also have "\<dots> = map (\<lambda>i. ?c * ((if 0 < i then u ! (i - 1) else 0) - 2 * u ! i
                 + (if Suc i < ?N then u ! Suc i else 0))) [0..<?N]"
  proof (rule map_cong)
    fix i assume "i \<in> set [0..<?N]"
    then have "i < ?N" by simp
    then show "row_dot (map (\<lambda>j. ?lap i j * ?c) [0..<?N]) u
        = ?c * ((if 0 < i then u ! (i - 1) else 0) - 2 * u ! i
                 + (if Suc i < ?N then u ! Suc i else 0))"
      by (rule row)
  qed simp
  finally show ?thesis .
qed

section \<open>The right-hand side of heat1d\<close>

text \<open>
  C2. For an instance that the constructor returned, a state \<open>u\<close> of \<open>nvars\<close> entries
  and any time \<open>t\<close>, \<^verbatim>\<open>eval_f(u, t)\<close> returns a right-hand side whose implicit part
  is the product \<open>A u\<close> and whose explicit part is the zero vector of length
  \<open>nvars\<close>. The matrix \<open>A\<close> is the second-order finite-difference Laplacian, with the
  stencil \<open>1, -2, 1\<close> scaled by \<open>nu / dx\<^sup>2\<close> and \<open>dx = 1 / (nvars + 1)\<close>, so the
  \<open>i\<close>-th entry of the implicit part is
  \<open>nu / dx\<^sup>2 * (u\<^sub>i\<^sub>-\<^sub>1 - 2 u\<^sub>i + u\<^sub>i\<^sub>+\<^sub>1)\<close>, with zero beyond both
  ends of the grid.
\<close>

theorem eval_f_heat1d:
  assumes init: "heat1d_init cp = Inr P" and len: "length (vals u) = nat (nvars P)"
  shows "\<exists>f. eval_f P u t = Inr f
      \<and> dot (A P) (vals u) = Inr (vals (impl f))
      \<and> vals (impl f) =
          map (\<lambda>i. nu P / (dx P)\<^sup>2 *
                 ((if 0 < i then vals u ! (i - 1) else 0) - 2 * vals u ! i
                   + (if Suc i < nat (nvars P) then vals u ! Suc i else 0)))
              [0..<nat (nvars P)]
      \<and> vals (expl f) = replicate (nat (nvars P)) 0
      \<and> (\<forall>i<nat (nvars P). \<forall>j<nat (nvars P).
            A P ! i ! j = nu P / (dx P)\<^sup>2 *
               (if i = j then - 2 else if i = Suc j \<or> j = Suc i then 1 else 0))
      \<and> dx P = 1 / (real_of_int (nvars P) + 1)"
proof -
  have dx: "dx P = 1 / (real_of_int (nvars P) + 1)"
    using heat1d_init_Inr [OF init] by auto
  have ent: "\<forall>i<nat (nvars P). \<forall>j<nat (nvars P).
            A P ! i ! j = nu P / (dx P)\<^sup>2 *
               (if i = j then - 2 else if i = Suc j \<or> j = Suc i then 1 else 0)"
    by (simp add: A_rows [OF init])
  show ?thesis
    using dx ent
    by (simp add: eval_f_def eval_fimpl_def eval_fexpl_def rhs_imex_mesh_init_def
        mesh_init_constructed [OF init] A_dot [OF init len])
qed

theorem eval_f_heat1d_witness:
  "heat1d_init [''nvars'' \<mapsto> IntV 2, ''nu'' \<mapsto> FloatV 1] =
     Inr \<lparr>nvars = 2, nu = 1, dx = 1 / 3, A = [[- 18, 9], [9, - 18]],
          xvalues = [1 / 3, 2 / 3]\<rparr>
   \<and> (\<exists>f. eval_f \<lparr>nvars = 2, nu = 1, dx = 1 / 3, A = [[- 18, 9], [9, - 18]],
                   xvalues = [1 / 3, 2 / 3]\<rparr> \<lparr>vals = [1, 2]\<rparr> 0 = Inr f
          \<and> vals (impl f) = [0, - 27] \<and> vals (expl f) = [0, 0])"
proof -
  have len: "length (vals \<lparr>vals = [1, 2 :: real]\<rparr>)
      = nat (nvars \<lparr>nvars = 2, nu = 1, dx = 1 / 3, A = [[- 18, 9], [9, - 18]],
                    xvalues = [1 / 3, 2 / 3]\<rparr>)"
    by simp
  from eval_f_heat1d [OF heat1d_init_two len, of 0] obtain f where
    f: "eval_f \<lparr>nvars = 2, nu = 1, dx = 1 / 3, A = [[- 18, 9], [9, - 18]],
                xvalues = [1 / 3, 2 / 3]\<rparr> \<lparr>vals = [1, 2]\<rparr> 0 = Inr f"
    and i: "dot [[- 18, 9], [9, - 18]] [1, 2] = Inr (vals (impl f))"
    and e: "vals (expl f) = replicate (nat 2) 0"
    by auto
  from i have "vals (impl f) = [0, - 27]"
    by (simp add: dot_def row_dot_def)
  moreover from e have "vals (expl f) = [0, 0]"
    by (simp add: numeral_2_eq_2)
  ultimately show ?thesis using f heat1d_init_two by blast
qed

section \<open>Properties of the rounding\<close>


































section \<open>The exact solution of heat1d\<close>















section \<open>The forcing term of heat1d\<close>



section \<open>The initial guess of solve_system\<close>

text \<open>
  C9. For \<^verbatim>\<open>heat1d\<close> and \<^verbatim>\<open>heat1d_periodic\<close>, the result of
  \<^verbatim>\<open>solve_system(rhs, factor, u0)\<close> does not depend on the initial guess \<open>u0\<close>:
  two calls that differ in \<open>u0\<close> only return the same mesh (or the same error).
\<close>

theorem solve_system_ignores_u0:
  "solve_system LA_inv P rhs factor u0 = solve_system LA_inv P rhs factor u0'
   \<and> periodic_solve_system LA_inv Q rhs' factor' u0
       = periodic_solve_system LA_inv Q rhs' factor' u0'"
  by (simp add: solve_system_def periodic_solve_system_def)

lemma solve_system_two:
  "solve_system inv_2x2 \<lparr>nvars = 2, nu = 1, dx = 1 / 3, A = [[- 18, 9], [9, - 18]],
       xvalues = [1 / 3, 2 / 3]\<rparr> \<lparr>vals = [1, 2]\<rparr> (1 / 9) \<lparr>vals = [0, 0]\<rparr>
     = Inr \<lparr>vals = [5 / 8, 7 / 8]\<rparr>"
  by (simp add: solve_system_def mesh_init_def mat_sub_def sp_eye_def mat_scale_def
      inv_2x2_def dot_def row_dot_def upt_rec)

lemma periodic_solve_system_two:
  "periodic_solve_system inv_2x2 \<lparr>nvars = 2, nu = 1, dx = 1 / 2, A = [[- 8, 8], [8, - 8]],
       xvalues = [0, 1 / 2], sparse_format = StrV ''array''\<rparr>
       \<lparr>vals = [1, 2]\<rparr> (1 / 8) \<lparr>vals = [0, 0]\<rparr>
     = Inr \<lparr>vals = [4 / 3, 5 / 3]\<rparr>"
  by (simp add: periodic_solve_system_def mesh_init_def mat_sub_def sp_eye_def mat_scale_def
      inv_2x2_def dot_def row_dot_def upt_rec)

theorem solve_system_ignores_u0_witness:
  "solve_system inv_2x2 \<lparr>nvars = 2, nu = 1, dx = 1 / 3, A = [[- 18, 9], [9, - 18]],
       xvalues = [1 / 3, 2 / 3]\<rparr> \<lparr>vals = [1, 2]\<rparr> (1 / 9) \<lparr>vals = [7, - 3]\<rparr>
     = Inr \<lparr>vals = [5 / 8, 7 / 8]\<rparr>
   \<and> periodic_solve_system inv_2x2 \<lparr>nvars = 2, nu = 1, dx = 1 / 2, A = [[- 8, 8], [8, - 8]],
       xvalues = [0, 1 / 2], sparse_format = StrV ''array''\<rparr>
       \<lparr>vals = [1, 2]\<rparr> (1 / 8) \<lparr>vals = [7, - 3]\<rparr>
     = Inr \<lparr>vals = [4 / 3, 5 / 3]\<rparr>"
  using solve_system_ignores_u0 [of inv_2x2
      "\<lparr>nvars = 2, nu = 1, dx = 1 / 3, A = [[- 18, 9], [9, - 18]], xvalues = [1 / 3, 2 / 3]\<rparr>"
      "\<lparr>vals = [1, 2]\<rparr>" "1 / 9" "\<lparr>vals = [7, - 3]\<rparr>" "\<lparr>vals = [0, 0]\<rparr>"
      "\<lparr>nvars = 2, nu = 1, dx = 1 / 2, A = [[- 8, 8], [8, - 8]],
        xvalues = [0, 1 / 2], sparse_format = StrV ''array''\<rparr>" "\<lparr>vals = [1, 2]\<rparr>" "1 / 8"]
  by (simp only: solve_system_two periodic_solve_system_two)

section \<open>The periodic class shares its methods' bodies\<close>

text \<open>
  The source repeats the bodies of \<^verbatim>\<open>solve_system\<close> and \<^verbatim>\<open>force_term\<close> in
  \<^verbatim>\<open>heat1d_periodic\<close>: on the attributes that both classes have, the methods agree.
\<close>

lemma periodic_force_term_same:
  "periodic_force_term Q ta = force_term (heat1d.truncate Q) ta"
  by (cases ta) (simp_all add: heat1d.truncate_def)

lemma periodic_solve_system_same:
  "periodic_solve_system LA_inv Q rhs factor u0
     = solve_system LA_inv (heat1d.truncate Q) rhs factor u0"
  by (simp add: periodic_solve_system_def solve_system_def heat1d.truncate_def
      cong: sum.case_cong)

section \<open>solve_system of heat1d solves its system\<close>

text \<open>
  The product with a right inverse: if \<open>M\<close> and \<open>Minv\<close> have shape \<open>(N, N)\<close> and
  \<open>M Minv\<close> is the identity, then \<open>M (Minv v) = v\<close>.
\<close>

lemma dot_right_inverse:
  assumes M: "length M = N" "\<forall>r\<in>set M. length r = N"
    and Minv: "length Minv = N" "\<forall>r\<in>set Minv. length r = N"
    and v: "length v = N"
    and inv: "\<forall>i<N. \<forall>j<N. (\<Sum>k<N. M ! i ! k * Minv ! k ! j) = (if i = j then 1 else 0)"
  shows "dot M (map (\<lambda>r. row_dot r v) Minv) = Inr v"
proof -
  let ?u = "map (\<lambda>r. row_dot r v) Minv"
  have u: "?u ! k = (\<Sum>j<N. Minv ! k ! j * v ! j)" if "k < N" for k
  proof -
    have "length (Minv ! k) = length v" using Minv v that by simp
    from row_dot_sum [OF this] show ?thesis using Minv v that by simp
  qed
  have row: "row_dot (M ! i) ?u = v ! i" if i: "i < N" for i
  proof -
    have "length (M ! i) = length ?u" using M Minv i by simp
    from row_dot_sum [OF this]
    have "row_dot (M ! i) ?u = (\<Sum>k<N. M ! i ! k * ?u ! k)"
      using Minv by simp
    also have "\<dots> = (\<Sum>k<N. M ! i ! k * (\<Sum>j<N. Minv ! k ! j * v ! j))"
      by (rule sum.cong) (simp_all only: u lessThan_iff)
    also have "\<dots> = (\<Sum>k<N. \<Sum>j<N. M ! i ! k * Minv ! k ! j * v ! j)"
      by (simp only: sum_distrib_left mult.assoc)
    also have "\<dots> = (\<Sum>j<N. \<Sum>k<N. M ! i ! k * Minv ! k ! j * v ! j)"
      by (rule sum.swap)
    also have "\<dots> = (\<Sum>j<N. (\<Sum>k<N. M ! i ! k * Minv ! k ! j) * v ! j)"
      by (simp only: sum_distrib_right)
    also have "\<dots> = (\<Sum>j<N. (if i = j then 1 else 0) * v ! j)"
      by (rule sum.cong) (simp_all add: inv i)
    also have "\<dots> = (\<Sum>j<N. if j = i then v ! j else 0)"
      by (rule sum.cong) simp_all
    also have "\<dots> = v ! i" using i by simp
    finally show ?thesis .
  qed
  have "map (\<lambda>r. row_dot r ?u) M = v"
  proof (rule nth_equalityI)
    show "length (map (\<lambda>r. row_dot r ?u) M) = length v" using M v by simp
  next
    fix i assume "i < length (map (\<lambda>r. row_dot r ?u) M)"
    then have i: "i < N" using M by simp
    then have "map (\<lambda>r. row_dot r ?u) M ! i = row_dot (M ! i) ?u" using M by simp
    with row [OF i] show "map (\<lambda>r. row_dot r ?u) M ! i = v ! i" by simp
  qed
  then show ?thesis using M Minv by (simp add: dot_def)
qed

lemma system_matrix_shape:
  assumes init: "heat1d_init cp = Inr P"
  shows "\<exists>M. mat_sub (sp_eye (nvars P)) (mat_scale factor (A P)) = Inr M
      \<and> mat_sub (sp_eye (int (length (A P)))) (mat_scale factor (A P)) = Inr M
      \<and> length M = nat (nvars P) \<and> (\<forall>r\<in>set M. length r = nat (nvars P))"
proof -
  have pos: "1 \<le> nvars P" using heat1d_init_Inr [OF init] by auto
  have len: "length (A P) = nat (nvars P)"
    by (simp add: A_rows [OF init])
  then have eye: "sp_eye (int (length (A P))) = sp_eye (nvars P)"
    using pos by simp
  have shapes: "map length (sp_eye (nvars P)) = map length (mat_scale factor (A P))"
    by (simp add: sp_eye_def mat_scale_def A_rows [OF init] comp_def)
  have "\<forall>r\<in>set (map2 (map2 (\<lambda>a b. a - b)) (sp_eye (nvars P)) (mat_scale factor (A P))).
          length r = nat (nvars P)"
    by (auto simp: sp_eye_def mat_scale_def A_rows [OF init] set_zip)
  moreover have "length (map2 (map2 (\<lambda>a b. a - b)) (sp_eye (nvars P)) (mat_scale factor (A P)))
      = nat (nvars P)"
    by (simp add: sp_eye_def mat_scale_def A_rows [OF init])
  ultimately show ?thesis
    using shapes by (simp add: mat_sub_def eye)
qed

text \<open>
  The sibling of \<^verbatim>\<open>sharpclaw.solve_system\<close>: for a \<^verbatim>\<open>heat1d\<close> instance, a
  right-hand side of \<open>nvars\<close> entries and a factor for which the library returns a
  right inverse of \<open>I - factor * A\<close>, \<^verbatim>\<open>solve_system\<close> returns a mesh \<open>u\<close> with
  \<open>(I - factor * A) u = rhs\<close>.
\<close>

lemma heat1d_solve_system_solves:
  assumes init: "heat1d_init cp = Inr P"
    and rhs: "length (vals rhs) = nat (nvars P)"
    and M: "mat_sub (sp_eye (nvars P)) (mat_scale factor (A P)) = Inr M"
    and inv: "LA_inv M = Inr Minv"
    and shape: "length Minv = nat (nvars P)" "\<forall>r\<in>set Minv. length r = nat (nvars P)"
    and right: "\<forall>i<nat (nvars P). \<forall>j<nat (nvars P).
        (\<Sum>k<nat (nvars P). M ! i ! k * Minv ! k ! j) = (if i = j then 1 else 0)"
  shows "\<exists>u. solve_system LA_inv P rhs factor u0 = Inr u
      \<and> system_lhs (A P) factor (vals u) = Inr (vals rhs)"
proof -
  from system_matrix_shape [OF init, of factor] M
  have M': "mat_sub (sp_eye (int (length (A P)))) (mat_scale factor (A P)) = Inr M"
    and lenM: "length M = nat (nvars P)" "\<forall>r\<in>set M. length r = nat (nvars P)"
    by auto
  have sol: "solve_system LA_inv P rhs factor u0
      = Inr \<lparr>vals = map (\<lambda>r. row_dot r (vals rhs)) Minv\<rparr>"
    by (simp add: solve_system_def mesh_init_constructed [OF init] M inv dot_def rhs shape)
  have "dot M (map (\<lambda>r. row_dot r (vals rhs)) Minv) = Inr (vals rhs)"
    by (rule dot_right_inverse [OF lenM shape rhs right])
  then have "system_lhs (A P) factor (map (\<lambda>r. row_dot r (vals rhs)) Minv) = Inr (vals rhs)"
    by (simp add: system_lhs_def M')
  with sol show ?thesis by simp
qed

lemma heat1d_solve_system_solves_two:
  "system_lhs [[- 18, 9], [9, - 18]] (1 / 9) [5 / 8, 7 / 8] = Inr [1, 2]"
  by (simp add: system_lhs_def mat_sub_def sp_eye_def mat_scale_def dot_def row_dot_def upt_rec)

section \<open>solve_system of sharpclaw\<close>

text \<open>
  C1, at the input where the source departs from it: for the \<^verbatim>\<open>sharpclaw\<close> problem
  with one unknown, \<^verbatim>\<open>solve_system\<close> with right-hand side \<open>[1]\<close> and factor
  \<open>1 / 2\<close> returns the zero mesh. The implicit operator of \<^verbatim>\<open>sharpclaw\<close> maps
  every state to zero; with it, and with any other operator \<open>[[a]]\<close>, the left-hand
  side \<open>(I - factor * Op) u\<close> at the returned \<open>u\<close> is \<open>[0]\<close>, not the right-hand
  side.
\<close>

theorem sharpclaw_solve_system_zero:
  "sharpclaw_solve_system \<lparr>sc_nvars = 1\<rparr> \<lparr>vals = [1]\<rparr> (1 / 2) \<lparr>vals = [0]\<rparr>
     = Inr \<lparr>vals = [0]\<rparr>
   \<and> sharpclaw_eval_fimpl \<lparr>sc_nvars = 1\<rparr> \<lparr>vals = [x]\<rparr> t = Inr \<lparr>vals = [0]\<rparr>
   \<and> system_lhs [[a]] (1 / 2) [0] = Inr [0]
   \<and> [0] \<noteq> vals \<lparr>vals = [1]\<rparr>"
  by (simp add: sharpclaw_solve_system_def sharpclaw_eval_fimpl_def mesh_init_def
      mesh_rmul_def system_lhs_def mat_sub_def sp_eye_def mat_scale_def dot_def row_dot_def)

section \<open>The constructor of the collocation classes\<close>

text \<open>
  C4. Constructing a collocation node set with a node count \<open>M < 1\<close> (so with
  \<open>M = 0\<close>), with an interval of zero or negative length (\<open>a \<ge> b\<close>), or with an
  unsupported combination of node type and quadrature type, raises
  \<^verbatim>\<open>ConfigurationError\<close> and returns no object; so does \<^verbatim>\<open>Equidistant\<close>, which
  passes its arguments on with the tags \<^verbatim>\<open>EQUID\<close> and \<^verbatim>\<open>LOBATTO\<close>.
\<close>

theorem collocation_rejects:
  "(M < 1 \<or> b \<le> a \<or> \<not> supported nt qt \<longrightarrow>
      Collocation_init supported M a b nt qt spline = Inl ConfigurationError
      \<and> (\<forall>c. Collocation_init supported M a b nt qt spline \<noteq> Inr c))
   \<and> (M < 1 \<or> b \<le> a \<or> \<not> supported ''EQUID'' ''LOBATTO'' \<longrightarrow>
      Equidistant_init supported M a b = Inl ConfigurationError
      \<and> (\<forall>c. Equidistant_init supported M a b \<noteq> Inr c))
   \<and> Equidistant_init supported M a b
       = Collocation_init supported M a b ''EQUID'' ''LOBATTO'' False"
  by (auto simp: Collocation_init_def Equidistant_init_def)

theorem collocation_rejects_witness:
  "Equidistant_init (\<lambda>nt qt. nt = ''EQUID'' \<and> qt = ''LOBATTO'') 0 0 1 = Inl ConfigurationError
   \<and> Equidistant_init (\<lambda>nt qt. nt = ''EQUID'' \<and> qt = ''LOBATTO'') 3 1 1 = Inl ConfigurationError
   \<and> Equidistant_init (\<lambda>nt qt. nt = ''EQUID'' \<and> qt = ''LOBATTO'') 3 2 1 = Inl ConfigurationError
   \<and> Collocation_init (\<lambda>nt qt. nt = ''EQUID'' \<and> qt = ''LOBATTO'') 3 0 1 ''EQUID'' ''RADAU'' False
       = Inl ConfigurationError"
  using collocation_rejects [of 0 1 0 "\<lambda>nt qt. nt = ''EQUID'' \<and> qt = ''LOBATTO''"]
    collocation_rejects [of 3 1 1 "\<lambda>nt qt. nt = ''EQUID'' \<and> qt = ''LOBATTO''"]
    collocation_rejects [of 3 1 2 "\<lambda>nt qt. nt = ''EQUID'' \<and> qt = ''LOBATTO''"]
    collocation_rejects [of 3 1 0 "\<lambda>nt qt. nt = ''EQUID'' \<and> qt = ''LOBATTO''" "''EQUID''"
      "''RADAU''" False]
  by simp

section \<open>The error of a missing parameter\<close>

text \<open>
  C7 as the claim states it fails: the parameter mapping that holds \<^verbatim>\<open>nu\<close> only
  makes the constructor of \<^verbatim>\<open>heat1d\<close> raise \<^verbatim>\<open>AssertionError\<close>, which is not
  \<^verbatim>\<open>ConfigurationError\<close>.
\<close>

theorem heat1d_init_missing_counterexample:
  "[''nu'' \<mapsto> FloatV 1] ''nvars'' = None
   \<and> heat1d_init [''nu'' \<mapsto> FloatV 1] = Inl AssertionError
   \<and> heat1d_init [''nu'' \<mapsto> FloatV 1] \<noteq> Inl ConfigurationError"
  by (simp add: heat1d_init_def)

text \<open>
  C7, amended. Constructing a \<^verbatim>\<open>heat1d\<close> or a \<^verbatim>\<open>heat1d_periodic\<close> instance from a
  parameter mapping without \<^verbatim>\<open>nvars\<close> or without \<^verbatim>\<open>nu\<close> fails at construction
  time with \<^verbatim>\<open>AssertionError\<close>, and returns no instance.
\<close>

theorem init_missing_field:
  assumes "cparams ''nvars'' = None \<or> cparams ''nu'' = None"
  shows "heat1d_init cparams = Inl AssertionError
       \<and> heat1d_periodic_init to_sparse cparams = Inl AssertionError
       \<and> (\<forall>P. heat1d_init cparams \<noteq> Inr P)
       \<and> (\<forall>Q. heat1d_periodic_init to_sparse cparams \<noteq> Inr Q)"
  using heat1d_init_missing [OF assms] heat1d_periodic_init_missing [OF assms]
  by simp

theorem init_missing_field_witness:
  "[''nvars'' \<mapsto> IntV 4] ''nu'' = None
   \<and> heat1d_init [''nvars'' \<mapsto> IntV 4] = Inl AssertionError
   \<and> heat1d_periodic_init (\<lambda>M f. M) [''nvars'' \<mapsto> IntV 4] = Inl AssertionError"
proof -
  have h: "[''nvars'' \<mapsto> IntV 4] ''nvars'' = None \<or> [''nvars'' \<mapsto> IntV 4] ''nu'' = None"
    by simp
  from init_missing_field [OF h, of "\<lambda>M f. M"]
  have "heat1d_init [''nvars'' \<mapsto> IntV 4] = Inl AssertionError
      \<and> heat1d_periodic_init (\<lambda>M f. M) [''nvars'' \<mapsto> IntV 4] = Inl AssertionError"
    by blast
  moreover have "[''nvars'' \<mapsto> IntV 4] ''nu'' = None"
    by simp
  ultimately show ?thesis by blast
qed

section \<open>eval_f changes nothing it was given\<close>

lemma h_eval_f_frame:
  assumes u: "h_values u s = Inr uv" and run: "h_eval_f u t s = (r, s')"
  shows "self s' = self s"
    and "take (length (heap s)) (heap s') = heap s"
    and "h_result r s' = eval_f (self s) \<lparr>vals = uv\<rparr> t"
  using assms
  by (auto simp: h_eval_f_def h_rhs_imex_mesh_def h_eval_fimpl_def h_eval_fexpl_def h_mesh_def
      alloc_def h_values_def h_set_values_def h_set_impl_def h_set_expl_def h_result_def
      eval_f_def eval_fimpl_def eval_fexpl_def rhs_imex_mesh_init_def mesh_init_def
      nth_append nth_list_update
      split: if_splits sum.splits prod.splits obj.splits)

lemma h_values_kept:
  assumes u: "h_values u s = Inr uv"
    and keep: "take (length (heap s)) (heap s') = heap s"
  shows "h_values u s' = Inr uv"
proof -
  from u have lt: "u < length (heap s)"
    by (auto simp: h_values_def split: if_splits)
  have "length (take (length (heap s)) (heap s')) = length (heap s)"
    by (simp only: keep)
  then have len: "length (heap s) \<le> length (heap s')"
    by simp
  have "heap s' ! u = take (length (heap s)) (heap s') ! u"
    using lt by simp
  then have "heap s' ! u = heap s ! u" by (simp only: keep)
  with u lt len show ?thesis by (auto simp: h_values_def split: if_splits)
qed

text \<open>
  C5. \<^verbatim>\<open>eval_f\<close> is a pure function of the state and the time. A call
  \<^verbatim>\<open>eval_f(u, t)\<close> on any heap in which \<open>u\<close> is a mesh leaves the instance
  unchanged and leaves every object that existed before the call unchanged, \<open>u\<close>
  among them; what the caller reads from its result is the value of the function
  \<open>eval_f\<close> at the instance, the values of \<open>u\<close> and \<open>t\<close>, whatever else the heap
  holds; and a second call with the same arguments returns an equal result.
\<close>

theorem eval_f_pure:
  assumes u: "h_values u s = Inr uv" and run: "h_eval_f u t s = (r, s')"
  shows "self s' = self s
       \<and> take (length (heap s)) (heap s') = heap s
       \<and> h_values u s' = Inr uv
       \<and> h_result r s' = eval_f (self s) \<lparr>vals = uv\<rparr> t
       \<and> h_result (fst (h_eval_f u t s')) (snd (h_eval_f u t s')) = h_result r s'"
proof -
  note first = h_eval_f_frame [OF u run]
  have u': "h_values u s' = Inr uv"
    by (rule h_values_kept [OF u first(2)])
  have "h_eval_f u t s' = (fst (h_eval_f u t s'), snd (h_eval_f u t s'))"
    by simp
  from h_eval_f_frame(3) [OF u' this]
  have "h_result (fst (h_eval_f u t s')) (snd (h_eval_f u t s'))
      = eval_f (self s') \<lparr>vals = uv\<rparr> t" .
  with first u' show ?thesis by simp
qed

theorem eval_f_pure_witness:
  "h_values 0 \<lparr>self = \<lparr>nvars = 2, nu = 1, dx = 1 / 3, A = [[- 18, 9], [9, - 18]],
                       xvalues = [1 / 3, 2 / 3]\<rparr>, heap = [MeshObj [1, 2]]\<rparr> = Inr [1, 2]
   \<and> h_eval_f 0 0 \<lparr>self = \<lparr>nvars = 2, nu = 1, dx = 1 / 3, A = [[- 18, 9], [9, - 18]],
                       xvalues = [1 / 3, 2 / 3]\<rparr>, heap = [MeshObj [1, 2]]\<rparr>
      = (Inr 3, \<lparr>self = \<lparr>nvars = 2, nu = 1, dx = 1 / 3, A = [[- 18, 9], [9, - 18]],
                       xvalues = [1 / 3, 2 / 3]\<rparr>,
                 heap = [MeshObj [1, 2], MeshObj [0, 0], MeshObj [0, 0], RhsObj 4 5,
                         MeshObj [0, - 27], MeshObj [0, 0]]\<rparr>)
   \<and> h_result (Inr 3) \<lparr>self = \<lparr>nvars = 2, nu = 1, dx = 1 / 3, A = [[- 18, 9], [9, - 18]],
                       xvalues = [1 / 3, 2 / 3]\<rparr>,
                 heap = [MeshObj [1, 2], MeshObj [0, 0], MeshObj [0, 0], RhsObj 4 5,
                         MeshObj [0, - 27], MeshObj [0, 0]]\<rparr>
      = eval_f \<lparr>nvars = 2, nu = 1, dx = 1 / 3, A = [[- 18, 9], [9, - 18]],
                       xvalues = [1 / 3, 2 / 3]\<rparr> \<lparr>vals = [1, 2]\<rparr> 0"
proof -
  let ?P = "\<lparr>nvars = 2, nu = 1, dx = 1 / 3, A = [[- 18, 9], [9, - 18]],
             xvalues = [1 / 3, 2 / 3]\<rparr>"
  let ?s = "\<lparr>self = ?P, heap = [MeshObj [1, 2]]\<rparr>"
  let ?s' = "\<lparr>self = ?P, heap = [MeshObj [1, 2], MeshObj [0, 0], MeshObj [0, 0], RhsObj 4 5,
                         MeshObj [0, - 27], MeshObj [0, 0]]\<rparr>"
  have u: "h_values 0 ?s = Inr [1, 2]"
    by (simp add: h_values_def)
  have run: "h_eval_f 0 0 ?s = (Inr 3, ?s')"
    by (simp add: h_eval_f_def h_rhs_imex_mesh_def h_eval_fimpl_def h_eval_fexpl_def h_mesh_def
        alloc_def h_values_def h_set_values_def h_set_impl_def h_set_expl_def dot_def
        row_dot_def numeral_2_eq_2)
  from eval_f_pure [OF u run] have "h_result (Inr 3) ?s' = eval_f ?P \<lparr>vals = [1, 2]\<rparr> 0"
    by simp
  with u run show ?thesis by blast
qed

end
